theory Spec2Isabelle
  imports Complex_Main "HOL-Library.Multiset"
begin

section \<open>Python failures as values\<close>

text \<open>
  The exceptions of the Python runtime and of its libraries that the modelled code can
  raise. A function that can raise returns \<open>py_error + 'a\<close>, with \<open>Inl\<close> for the exception.
  \<^item> \<open>ZeroDivisionError\<close>: the operator \<^verbatim>\<open>/\<close> with a zero divisor on Python numbers;
  \<^item> \<open>IndexError\<close>: an index outside the axis it addresses;
  \<^item> \<open>RuntimeError\<close>: \<^verbatim>\<open>torch.vstack\<close> called on an empty list of tensors;
  \<^item> \<open>TypeError\<close>: a value of a type the operation does not take, here a numpy array
    assigned to entries of a torch tensor.
\<close>

datatype py_error = ZeroDivisionError | IndexError | RuntimeError | TypeError

section \<open>msssim.py: the pairwise similarity sampler\<close>

text \<open>
  \<^verbatim>\<open>
  def compute_pairwise_msssim(loader, N=1000):
      tot_metric = 0
      count = 0
      msssim = MultiScaleSSIMMetric(spatial_dims=3, kernel_size=9)
      for i, data1 in enumerate(loader):
          for j, data2 in enumerate(loader):
              if count >= N:
                  break
              if i != j:
                  img1 = data1["vol_data"].float()
                  img2 = data2["vol_data"].float()
                  tot_metric += msssim(img1, img2).item()
                  count += 1
      return tot_metric / count
  \<close>
  The loader is a restartable sequence that yields the same samples in the same order
  each time it is iterated: a list. A sample is the dictionary the loader yields, of which
  the field \<open>vol_data\<close> is read. The metric \<open>msssim\<close> is the external
  \<^verbatim>\<open>MultiScaleSSIMMetric\<close>, a parameter of the model; its value (\<^verbatim>\<open>.item()\<close>, a Python
  float) is taken as a real number, so the running sum is an exact sum.
  The loop state is the pair \<open>(tot_metric, cnt)\<close>, \<open>cnt\<close> for the source's \<^verbatim>\<open>count\<close>.
\<close>

record 'v vol_sample =
  vol_data :: 'v

text \<open>The inner \<^verbatim>\<open>for j, data2 in enumerate(loader)\<close>; \<^verbatim>\<open>break\<close> leaves it with the state as it is.\<close>

fun msssim_inner ::
  "('v \<Rightarrow> 'v \<Rightarrow> real) \<Rightarrow> int \<Rightarrow> nat \<Rightarrow> 'v vol_sample \<Rightarrow> (nat \<times> 'v vol_sample) list
     \<Rightarrow> real \<times> int \<Rightarrow> real \<times> int" where
  "msssim_inner msssim N i data1 [] (tot_metric, cnt) = (tot_metric, cnt)"
| "msssim_inner msssim N i data1 ((j, data2) # rest) (tot_metric, cnt) =
     (if cnt \<ge> N then (tot_metric, cnt)
      else if i \<noteq> j then
        msssim_inner msssim N i data1 rest
          (tot_metric + msssim (vol_data data1) (vol_data data2), cnt + 1)
      else msssim_inner msssim N i data1 rest (tot_metric, cnt))"

text \<open>
  The outer \<^verbatim>\<open>for i, data1 in enumerate(loader)\<close>. The \<^verbatim>\<open>break\<close> ends the inner loop
  only: the outer loop goes on to the next \<open>i\<close> and starts the inner iteration again.
\<close>

fun msssim_outer ::
  "('v \<Rightarrow> 'v \<Rightarrow> real) \<Rightarrow> int \<Rightarrow> 'v vol_sample list \<Rightarrow> (nat \<times> 'v vol_sample) list
     \<Rightarrow> real \<times> int \<Rightarrow> real \<times> int" where
  "msssim_outer msssim N loader [] s = s"
| "msssim_outer msssim N loader ((i, data1) # rest) s =
     msssim_outer msssim N loader rest (msssim_inner msssim N i data1 (enumerate 0 loader) s)"

definition compute_pairwise_msssim ::
  "('v \<Rightarrow> 'v \<Rightarrow> real) \<Rightarrow> 'v vol_sample list \<Rightarrow> int \<Rightarrow> py_error + real" where
  "compute_pairwise_msssim msssim loader N =
     (case msssim_outer msssim N loader (enumerate 0 loader) (0, 0) of
        (tot_metric, cnt) \<Rightarrow>
          if cnt = 0 then Inl ZeroDivisionError
          else Inr (tot_metric / real_of_int cnt))"

text \<open>
  The ordered pairs \<open>(i, j)\<close> with \<open>i \<noteq> j\<close> in the order the nested loops meet them: for each
  \<open>i\<close> in iteration order, each \<open>j\<close> in iteration order, \<open>i = j\<close> left out. Each pair is given
  by its two samples.
\<close>

definition pairs_of ::
  "nat \<Rightarrow> 'v vol_sample \<Rightarrow> (nat \<times> 'v vol_sample) list \<Rightarrow> ('v vol_sample \<times> 'v vol_sample) list" where
  "pairs_of i data1 js = map (\<lambda>(j, data2). (data1, data2)) (filter (\<lambda>(j, data2). i \<noteq> j) js)"

definition ordered_pairs :: "'v vol_sample list \<Rightarrow> ('v vol_sample \<times> 'v vol_sample) list" where
  "ordered_pairs loader =
     concat (map (\<lambda>(i, data1). pairs_of i data1 (enumerate 0 loader)) (enumerate 0 loader))"

definition pair_metric :: "('v \<Rightarrow> 'v \<Rightarrow> real) \<Rightarrow> 'v vol_sample \<times> 'v vol_sample \<Rightarrow> real" where
  "pair_metric msssim p = msssim (vol_data (fst p)) (vol_data (snd p))"

section \<open>fid.py: numbers and arrays\<close>

text \<open>
  A tensor entry after a division can fail to be a number. The float produced by the
  arithmetic of \<open>__itensity_normalize_one_volume__\<close> is modelled as an exact real number
  (\<open>Fin\<close>), with the special values of IEEE arithmetic for the operations that have no
  real result: \<open>NaN\<close> for \<^verbatim>\<open>0/0\<close> and for the mean of no element, \<open>PInf\<close> and \<open>NInf\<close> for a
  non-zero number divided by zero. Rounding and overflow are not modelled, and zero has
  no sign (the only zero divisor that arises is a standard deviation, which is \<^verbatim>\<open>+0\<close>).
\<close>

datatype fnum = Fin real | PInf | NInf | NaN

fun fsub :: "fnum \<Rightarrow> fnum \<Rightarrow> fnum" where
  "fsub (Fin a) (Fin b) = Fin (a - b)"
| "fsub NaN y = NaN"
| "fsub x NaN = NaN"
| "fsub PInf PInf = NaN"
| "fsub NInf NInf = NaN"
| "fsub PInf y = PInf"
| "fsub NInf y = NInf"
| "fsub x PInf = NInf"
| "fsub x NInf = PInf"

fun fdiv :: "fnum \<Rightarrow> fnum \<Rightarrow> fnum" where
  "fdiv (Fin a) (Fin b) =
     (if b = 0 then (if a = 0 then NaN else if 0 < a then PInf else NInf) else Fin (a / b))"
| "fdiv NaN y = NaN"
| "fdiv x NaN = NaN"
| "fdiv (Fin a) y = Fin 0"
| "fdiv PInf (Fin b) = (if 0 \<le> b then PInf else NInf)"
| "fdiv NInf (Fin b) = (if 0 \<le> b then NInf else PInf)"
| "fdiv PInf PInf = NaN"
| "fdiv PInf NInf = NaN"
| "fdiv NInf PInf = NaN"
| "fdiv NInf NInf = NaN"

text \<open>
  A volume is modelled as a one-dimensional tensor, the list of its entries; the voxels of
  an input volume are finite numbers. The reductions and the entry-by-entry operations of
  the normalisation do not depend on the shape, and a volume of more dimensions with two
  or more voxels meets the same outcome at every step below.

  \<^verbatim>\<open>pixels.mean()\<close> and \<^verbatim>\<open>pixels.std()\<close> on a torch tensor: the mean of no element is NaN;
  \<^verbatim>\<open>std\<close> is the unbiased estimator (Bessel's correction, the default of torch), which
  is NaN for fewer than two elements.
\<close>

definition tensor_mean :: "real list \<Rightarrow> fnum" where
  "tensor_mean xs = (if xs = [] then NaN else Fin (sum_list xs / real (length xs)))"

definition tensor_std :: "real list \<Rightarrow> fnum" where
  "tensor_std xs =
     (if length xs < 2 then NaN
      else Fin (sqrt (sum_list (map (\<lambda>x. (x - sum_list xs / real (length xs))\<^sup>2) xs)
                       / (real (length xs) - 1))))"

text \<open>
  Indexing with a boolean mask: \<^verbatim>\<open>a[mask]\<close> reads the entries at the positions where the mask
  holds, in order.
\<close>

definition mask_select :: "bool list \<Rightarrow> 'a list \<Rightarrow> 'a list" where
  "mask_select msk xs = map snd (filter fst (zip msk xs))"

text \<open>
  \<^verbatim>\<open>np.random.normal(0, 1, size=volume.shape)\<close> reads the global generator and returns a
  numpy array. The generator is the stream \<open>normal\<close> of the draws it will produce, a
  parameter of the model, and the number \<open>rng\<close> of draws already consumed, part of the
  state: a call for \<open>n\<close> entries takes the next \<open>n\<close> draws.
\<close>

definition random_normal :: "(nat \<Rightarrow> real) \<Rightarrow> nat \<Rightarrow> nat \<Rightarrow> real list \<times> nat" where
  "random_normal normal n rng = (map normal [rng..<rng + n], rng + n)"

text \<open>
  \<^verbatim>\<open>out_random[volume == 0]\<close> indexes the numpy array of draws with a torch tensor of booleans.
  numpy first asks an index that is not an array for an integer (\<^verbatim>\<open>__index__\<close>); a torch tensor
  of booleans answers when it has exactly one element, \<open>0\<close> for false and \<open>1\<close> for true. The
  result is then the entry at that integer, a numpy float, or an \<open>IndexError\<close> when the
  integer is not below the length. A tensor of any other size is converted to an array and
  read as a boolean mask: the result is a numpy array.
\<close>

datatype 'a np_item = Scalar 'a | Array "'a list"

definition ndarray_getitem :: "'a list \<Rightarrow> bool list \<Rightarrow> py_error + 'a np_item" where
  "ndarray_getitem a msk =
     (case msk of
        [b] \<Rightarrow> (if (if b then 1 else 0) < length a
                then Inr (Scalar (a ! (if b then 1 else 0))) else Inl IndexError)
      | _ \<Rightarrow> Inr (Array (mask_select msk a)))"

text \<open>
  \<^verbatim>\<open>out[volume == 0] = value\<close> on the torch tensor \<open>out\<close>. The value may be a tensor or a Python
  number (a numpy float is one): the number is written at every position where the mask
  holds. For a value of any other type, a numpy array among them, torch raises a
  \<open>TypeError\<close> before it reads the mask.
\<close>

definition tensor_setitem :: "fnum list \<Rightarrow> bool list \<Rightarrow> real np_item \<Rightarrow> py_error + fnum list" where
  "tensor_setitem out msk v =
     (case v of
        Scalar c \<Rightarrow> Inr (map (\<lambda>(b, x). if b then Fin c else x) (zip msk out))
      | Array cs \<Rightarrow> Inl TypeError)"

text \<open>
  \<^verbatim>\<open>
  def __itensity_normalize_one_volume__(volume):
      pixels = volume[volume > 0]
      mean = pixels.mean()
      std = pixels.std()
      out = (volume - mean) / std
      out_random = np.random.normal(0, 1, size=volume.shape)
      out[volume == 0] = out_random[volume == 0]
      return out
  \<close>
  The caller passes a torch tensor (\<^verbatim>\<open>torch.tensor(data["image"]).float()\<close>), so \<open>out\<close> is a torch
  tensor and \<open>out_random\<close> a numpy array. The function has no \<^verbatim>\<open>raise\<close> and no check of its
  own; it raises what the last assignment raises, and otherwise returns \<open>out\<close> together with
  the advanced generator.
\<close>

definition itensity_normalize_one_volume ::
  "(nat \<Rightarrow> real) \<Rightarrow> real list \<Rightarrow> nat \<Rightarrow> py_error + fnum list \<times> nat" where
  "itensity_normalize_one_volume normal volume rng =
     (let pixels = mask_select (map (\<lambda>x. x > 0) volume) volume;
          mean = tensor_mean pixels;
          std = tensor_std pixels;
          out = map (\<lambda>x. fdiv (fsub (Fin x) mean) std) volume
      in case random_normal normal (length volume) rng of
           (out_random, rng') \<Rightarrow>
             (case ndarray_getitem out_random (map (\<lambda>x. x = 0) volume) of
                Inl e \<Rightarrow> Inl e
              | Inr v \<Rightarrow>
                  (case tensor_setitem out (map (\<lambda>x. x = 0) volume) v of
                     Inl e \<Rightarrow> Inl e
                   | Inr out' \<Rightarrow> Inr (out', rng'))))"

text \<open>
  The two stages of the function, named for the statements about it: \<open>normalized\<close> is the
  array \<open>out\<close> after the first four lines, \<open>assign_draws\<close> the draw and the assignment of the
  last lines applied to such an array.
\<close>

definition normalized :: "real list \<Rightarrow> fnum list" where
  "normalized volume =
     map (\<lambda>x. fdiv (fsub (Fin x) (tensor_mean (mask_select (map (\<lambda>x. x > 0) volume) volume)))
                    (tensor_std (mask_select (map (\<lambda>x. x > 0) volume) volume)))
         volume"

definition assign_draws ::
  "(nat \<Rightarrow> real) \<Rightarrow> real list \<Rightarrow> fnum list \<Rightarrow> nat \<Rightarrow> py_error + fnum list \<times> nat" where
  "assign_draws normal volume out rng =
     (case random_normal normal (length volume) rng of
        (out_random, rng') \<Rightarrow>
          (case ndarray_getitem out_random (map (\<lambda>x. x = 0) volume) of
             Inl e \<Rightarrow> Inl e
           | Inr v \<Rightarrow>
               (case tensor_setitem out (map (\<lambda>x. x = 0) volume) v of
                  Inl e \<Rightarrow> Inl e
                | Inr out' \<Rightarrow> Inr (out', rng'))))"

section \<open>fid.py: samples, record files and the state of a run\<close>

text \<open>
  A sample of a loader is a dictionary with the keys \<^verbatim>\<open>image\<close>, \<^verbatim>\<open>age\<close> and \<^verbatim>\<open>sex\<close>; the file
  written by \<^verbatim>\<open>np.savez(save_path, feat=..., age=age, sex=sex)\<close> holds the arrays \<^verbatim>\<open>feat\<close>, \<^verbatim>\<open>age\<close>
  and \<^verbatim>\<open>sex\<close>. Both are records over the two metadata fields. The field \<^verbatim>\<open>image\<close> is named
  \<open>image_arr\<close> here.
\<close>

record ('a, 's) metadata =
  age :: 'a
  sex :: 's

record ('i, 'a, 's) sample = "('a, 's) metadata" +
  image_arr :: 'i

record ('f, 'a, 's) npz = "('a, 's) metadata" +
  feat :: 'f

text \<open>
  The state a run reads and writes: the files on disk (a map from paths to the content
  of a record file), the number of draws the random generator has produced, and the
  number of calls of the feature extractor made so far (kept to count inference calls).
\<close>

record ('f, 'a, 's) world =
  files :: "string \<rightharpoonup> ('f, 'a, 's) npz"
  rng :: nat
  inference_calls :: nat

definition path_exists :: "('f, 'a, 's) world \<Rightarrow> string \<Rightarrow> bool" where
  "path_exists w path = (files w path \<noteq> None)"

definition np_savez ::
  "string \<Rightarrow> ('f, 'a, 's) npz \<Rightarrow> ('f, 'a, 's) world \<Rightarrow> ('f, 'a, 's) world" where
  "np_savez path content w = w\<lparr>files := (files w)(path \<mapsto> content)\<rparr>"

text \<open>\<^verbatim>\<open>f"feat_{i}.npz"\<close>: the index in decimal, as \<^verbatim>\<open>str\<close> prints a non-negative integer.\<close>

definition digit_char :: "nat \<Rightarrow> char" where
  "digit_char n = ''0123456789'' ! n"

fun str_of_nat :: "nat \<Rightarrow> string" where
  "str_of_nat n =
     (if n < 10 then [digit_char n] else str_of_nat (n div 10) @ [digit_char (n mod 10)])"

definition feat_name :: "nat \<Rightarrow> string" where
  "feat_name i = ''feat_'' @ str_of_nat i @ ''.npz''"

text \<open>
  \<^verbatim>\<open>os.path.join(a, b)\<close> on POSIX: \<open>b\<close> alone when it is absolute, else \<open>a\<close> and \<open>b\<close> with one
  separator between them unless \<open>a\<close> is empty or ends with one.
\<close>

definition path_join :: "string \<Rightarrow> string \<Rightarrow> string" where
  "path_join a b =
     (if take 1 b = ''/'' then b
      else if a = [] \<or> last a = CHR ''/'' then a @ b
      else a @ ''/'' @ b)"

definition save_path_of :: "string \<Rightarrow> nat \<Rightarrow> string" where
  "save_path_of dest_dir i = path_join dest_dir (feat_name i)"

section \<open>fid.py: feature extraction for volumes\<close>

text \<open>
  \<^verbatim>\<open>
  for i, data in enumerate(loader):
      save_path = os.path.join(dest_dir, f"feat_{i}.npz")
      if skip_existing and os.path.exists(save_path):
          print(f"Skipping because {save_path} already exists...")
          continue
      image = torch.tensor(data["image"]).float().to(device)
      image = __itensity_normalize_one_volume__(image)
      age = data["age"]
      sex = data["sex"]
      feat = feature_extractor(image)
      np.savez(save_path, feat=feat[0].cpu().detach().numpy(), age=age, sex=sex)
  \<close>
  The feature extractor is a parameter: it maps the normalised volume to a batch of
  embeddings (a list of rows), and \<^verbatim>\<open>feat[0]\<close> is the first of them, an \<open>IndexError\<close> when
  there is none. An exception of the normalisation ends the run before the extractor is
  called and before anything is written for the sample. A run that raises returns the
  exception; the state it leaves behind is not modelled.
\<close>

fun extract_medicalnet_loop ::
  "(nat \<Rightarrow> real) \<Rightarrow> (fnum list \<Rightarrow> 'f list) \<Rightarrow> string \<Rightarrow> bool
     \<Rightarrow> (nat \<times> (real list, 'a, 's) sample) list
     \<Rightarrow> ('f, 'a, 's) world \<Rightarrow> py_error + ('f, 'a, 's) world" where
  "extract_medicalnet_loop normal feature_extractor dest_dir skip_existing [] w = Inr w"
| "extract_medicalnet_loop normal feature_extractor dest_dir skip_existing ((i, data) # rest) w =
     (if skip_existing \<and> path_exists w (save_path_of dest_dir i) then
        extract_medicalnet_loop normal feature_extractor dest_dir skip_existing rest w
      else
        (case itensity_normalize_one_volume normal (image_arr data) (rng w) of
           Inl e \<Rightarrow> Inl e
         | Inr (img, rng') \<Rightarrow>
             (case feature_extractor img of
                [] \<Rightarrow> Inl IndexError
              | feat0 # others \<Rightarrow>
                  extract_medicalnet_loop normal feature_extractor dest_dir skip_existing rest
                    (np_savez (save_path_of dest_dir i)
                       \<lparr>age = age data, sex = sex data, feat = feat0\<rparr>
                       (w\<lparr>rng := rng', inference_calls := Suc (inference_calls w)\<rparr>)))))"

definition extract_medicalnet_features_to_dir ::
  "(nat \<Rightarrow> real) \<Rightarrow> (real list, 'a, 's) sample list \<Rightarrow> string \<Rightarrow> (fnum list \<Rightarrow> 'f list) \<Rightarrow> bool
     \<Rightarrow> ('f, 'a, 's) world \<Rightarrow> py_error + ('f, 'a, 's) world" where
  "extract_medicalnet_features_to_dir normal loader dest_dir feature_extractor skip_existing w =
     extract_medicalnet_loop normal feature_extractor dest_dir skip_existing (enumerate 0 loader) w"

section \<open>fid.py: feature extraction for central slices\<close>

text \<open>
  An image of the 2D path is an array of shape \<open>(B, C, D, H, W)\<close>, a nested list with one
  level for each axis. Arrays are rectangular: all lists at one depth have the same
  length, the size of that axis.

  \<^verbatim>\<open>image[:, :, image.shape[2] // 2]\<close> takes, for every batch item and channel, the plane in
  the middle of axis 2; with a size of zero there, index 0 is out of range.
\<close>

type_synonym plane = "real list list"

fun map_result :: "('x \<Rightarrow> py_error + 'y) \<Rightarrow> 'x list \<Rightarrow> py_error + 'y list" where
  "map_result f [] = Inr []"
| "map_result f (x # xs) =
     (case f x of
        Inl e \<Rightarrow> Inl e
      | Inr y \<Rightarrow> (case map_result f xs of Inl e \<Rightarrow> Inl e | Inr ys \<Rightarrow> Inr (y # ys)))"

definition middle :: "'x list \<Rightarrow> py_error + 'x" where
  "middle ds = (if ds = [] then Inl IndexError else Inr (ds ! (length ds div 2)))"

definition central_slice :: "plane list list list \<Rightarrow> py_error + plane list list" where
  "central_slice img = map_result (map_result middle) img"

text \<open>
  \<^verbatim>\<open>
  # If input has just 1 channel, repeat channel to have 3 channels
  if image.shape[1]:
      image = image.repeat(1, 3, 1, 1)
  \<close>
  The condition is the truth value of the integer \<^verbatim>\<open>image.shape[1]\<close>: true for every size of
  the channel axis but zero. \<^verbatim>\<open>repeat(1, 3, 1, 1)\<close> tiles the channel axis three times.
\<close>

definition shape1 :: "'x list list \<Rightarrow> nat" where
  "shape1 img = (case img of [] \<Rightarrow> 0 | channels # others \<Rightarrow> length channels)"

definition repeat_channels :: "'x list list \<Rightarrow> 'x list list" where
  "repeat_channels img = map (\<lambda>channels. channels @ channels @ channels) img"

definition channel_replication :: "'x list list \<Rightarrow> 'x list list" where
  "channel_replication img = (if shape1 img \<noteq> 0 then repeat_channels img else img)"

text \<open>\<^verbatim>\<open>image[:, [2, 1, 0], ...]\<close>: the channels at the listed indices, in that order.\<close>

definition select_channels :: "nat list \<Rightarrow> 'x list list \<Rightarrow> py_error + 'x list list" where
  "select_channels idx img =
     map_result
       (\<lambda>channels. if list_all (\<lambda>k. k < length channels) idx
                    then Inr (map (\<lambda>k. channels ! k) idx) else Inl IndexError)
       img"

text \<open>
  \<^verbatim>\<open>
  def subtract_mean(x):
      mean = [0.406, 0.456, 0.485]
      x[:, 0, :, :] -= mean[0]
      x[:, 1, :, :] -= mean[1]
      x[:, 2, :, :] -= mean[2]
      return x
  \<close>
\<close>

definition minus_const :: "real \<Rightarrow> plane \<Rightarrow> plane" where
  "minus_const m p = map (map (\<lambda>v. v - m)) p"

definition subtract_mean :: "plane list list \<Rightarrow> py_error + plane list list" where
  "subtract_mean x =
     map_result
       (\<lambda>channels.
          if 3 \<le> length channels
          then Inr (channels[0 := minus_const (406 / 1000) (channels ! 0),
                             1 := minus_const (456 / 1000) (channels ! 1),
                             2 := minus_const (485 / 1000) (channels ! 2)])
          else Inl IndexError)
       x"

text \<open>
  \<^verbatim>\<open>
  def _get_imagenet_features(image, model):
      if image.shape[1]:
          image = image.repeat(1, 3, 1, 1)
      image = image[:, [2, 1, 0], ...]
      image = subtract_mean(image)
      with torch.no_grad():
          feature_image = model(image)
      return feature_image
  \<close>
\<close>

definition get_imagenet_features ::
  "plane list list \<Rightarrow> (plane list list \<Rightarrow> 'f list) \<Rightarrow> py_error + 'f list" where
  "get_imagenet_features img model =
     (case select_channels [2, 1, 0] (channel_replication img) of
        Inl e \<Rightarrow> Inl e
      | Inr bgr \<Rightarrow>
          (case subtract_mean bgr of
             Inl e \<Rightarrow> Inl e
           | Inr centred \<Rightarrow> Inr (model centred)))"

text \<open>
  \<^verbatim>\<open>
  for i, data in enumerate(loader):
      image = data["image"]
      image = image[:, :, image.shape[2] // 2]
      save_path = os.path.join(dest_dir, f"feat_{i}.npz")
      if skip_existing and os.path.exists(save_path):
          print(f"Skipping because {save_path} already exists...")
          continue
      image = torch.tensor(image).float().to(device)
      age = data["age"]
      sex = data["sex"]
      feat = _get_imagenet_features(image, feature_extractor)
      np.savez(save_path, feat=feat[0].cpu().detach().numpy(), age=age, sex=sex)
  \<close>
  The slice is taken before the test for an existing record.
\<close>

fun extract_imagenet_loop ::
  "(plane list list \<Rightarrow> 'f list) \<Rightarrow> string \<Rightarrow> bool
     \<Rightarrow> (nat \<times> (plane list list list, 'a, 's) sample) list
     \<Rightarrow> ('f, 'a, 's) world \<Rightarrow> py_error + ('f, 'a, 's) world" where
  "extract_imagenet_loop feature_extractor dest_dir skip_existing [] w = Inr w"
| "extract_imagenet_loop feature_extractor dest_dir skip_existing ((i, data) # rest) w =
     (case central_slice (image_arr data) of
        Inl e \<Rightarrow> Inl e
      | Inr img \<Rightarrow>
          if skip_existing \<and> path_exists w (save_path_of dest_dir i) then
            extract_imagenet_loop feature_extractor dest_dir skip_existing rest w
          else
            (case get_imagenet_features img feature_extractor of
               Inl e \<Rightarrow> Inl e
             | Inr [] \<Rightarrow> Inl IndexError
             | Inr (feat0 # others) \<Rightarrow>
                 extract_imagenet_loop feature_extractor dest_dir skip_existing rest
                   (np_savez (save_path_of dest_dir i)
                      \<lparr>age = age data, sex = sex data, feat = feat0\<rparr>
                      (w\<lparr>inference_calls := Suc (inference_calls w)\<rparr>))))"

definition extract_imagenet_features_to_dir ::
  "(plane list list list, 'a, 's) sample list \<Rightarrow> string \<Rightarrow> (plane list list \<Rightarrow> 'f list) \<Rightarrow> bool
     \<Rightarrow> ('f, 'a, 's) world \<Rightarrow> py_error + ('f, 'a, 's) world" where
  "extract_imagenet_features_to_dir loader dest_dir feature_extractor skip_existing w =
     extract_imagenet_loop feature_extractor dest_dir skip_existing (enumerate 0 loader) w"

section \<open>fid.py: the two evaluation entry points\<close>

text \<open>
  \<^verbatim>\<open>
  real_feats = []
  fake_feats = []
  for real, fake in zip(real_feat_loader, fake_feat_loader):
      real_feats.append(real["feat"])
      fake_feats.append(fake["feat"])
  return FIDMetric()(torch.vstack(fake_feats), torch.vstack(real_feats)).item()
  \<close>
  These lines end both \<open>evaluate_fid_medicalnet3d\<close> and \<open>evaluate_fid_imagenet2d\<close>. A feature
  loader yields dictionaries whose entry \<^verbatim>\<open>feat\<close> is a tensor of embeddings, a list of rows.
  \<^verbatim>\<open>zip\<close> stops with the shorter of its arguments. \<^verbatim>\<open>torch.vstack\<close> concatenates the rows of
  the tensors of a list and raises a \<open>RuntimeError\<close> on the empty list. \<^verbatim>\<open>FIDMetric\<close>, of the
  external package \<^verbatim>\<open>generative\<close>, is a parameter: a function of the two stacked matrices,
  the generated features first.
\<close>

fun collect_feats ::
  "(('r list, 'a, 's) npz \<times> ('r list, 'a, 's) npz) list \<Rightarrow> 'r list list \<times> 'r list list
     \<Rightarrow> 'r list list \<times> 'r list list" where
  "collect_feats [] (real_feats, fake_feats) = (real_feats, fake_feats)"
| "collect_feats ((real_b, fake_b) # rest) (real_feats, fake_feats) =
     collect_feats rest (real_feats @ [feat real_b], fake_feats @ [feat fake_b])"

definition vstack :: "'r list list \<Rightarrow> py_error + 'r list" where
  "vstack tensors = (if tensors = [] then Inl RuntimeError else Inr (concat tensors))"

definition fid_of_feat_loaders ::
  "('r list \<Rightarrow> 'r list \<Rightarrow> real) \<Rightarrow> ('r list, 'a, 's) npz list \<Rightarrow> ('r list, 'a, 's) npz list
     \<Rightarrow> py_error + real" where
  "fid_of_feat_loaders fid_metric real_feat_loader fake_feat_loader =
     (case collect_feats (zip real_feat_loader fake_feat_loader) ([], []) of
        (real_feats, fake_feats) \<Rightarrow>
          (case vstack fake_feats of
             Inl e \<Rightarrow> Inl e
           | Inr y_pred \<Rightarrow>
               (case vstack real_feats of
                  Inl e \<Rightarrow> Inl e
                | Inr y \<Rightarrow> Inr (fid_metric y_pred y))))"

text \<open>
  \<^verbatim>\<open>
  def evaluate_fid_medicalnet3d(real_img_loader, fake_img_loader, real_feat_dir,
                                fake_feat_dir, device, skip_existing):
      medicalnet = _get_medicalnet_model().to(device)
      _extract_medicalnet_features_to_dir(
          real_img_loader, real_feat_dir, medicalnet, device, skip_existing=skip_existing)
      _extract_medicalnet_features_to_dir(
          fake_img_loader, fake_feat_dir, medicalnet, device, skip_existing=skip_existing)
      real_feat_loader = create_dataloader_from_dir(real_feat_dir)
      fake_feat_loader = create_dataloader_from_dir(fake_feat_dir)
      ...
  \<close>
  \<open>evaluate_fid_imagenet2d\<close> is the same with the ImageNet model and extraction. The model
  (\<^verbatim>\<open>_get_medicalnet_model()\<close>, \<^verbatim>\<open>_get_imagenet_model()\<close>) and
  \<^verbatim>\<open>create_dataloader_from_dir\<close>, of \<^verbatim>\<open>stai_utils.evaluations.util\<close>, are parameters: the
  latter reads the files of a directory and yields the feature loader, or raises.
\<close>

definition evaluate_fid_medicalnet3d ::
  "(nat \<Rightarrow> real) \<Rightarrow> (fnum list \<Rightarrow> 'r list)
     \<Rightarrow> (('r, 'a, 's) world \<Rightarrow> string \<Rightarrow> py_error + ('r list, 'a, 's) npz list)
     \<Rightarrow> ('r list \<Rightarrow> 'r list \<Rightarrow> real)
     \<Rightarrow> (real list, 'a, 's) sample list \<Rightarrow> (real list, 'a, 's) sample list
     \<Rightarrow> string \<Rightarrow> string \<Rightarrow> bool \<Rightarrow> ('r, 'a, 's) world
     \<Rightarrow> py_error + real \<times> ('r, 'a, 's) world" where
  "evaluate_fid_medicalnet3d normal medicalnet create_dataloader_from_dir fid_metric
     real_img_loader fake_img_loader real_feat_dir fake_feat_dir skip_existing w =
     (case extract_medicalnet_features_to_dir normal real_img_loader real_feat_dir medicalnet
             skip_existing w of
        Inl e \<Rightarrow> Inl e
      | Inr w1 \<Rightarrow>
          (case extract_medicalnet_features_to_dir normal fake_img_loader fake_feat_dir medicalnet
                  skip_existing w1 of
             Inl e \<Rightarrow> Inl e
           | Inr w2 \<Rightarrow>
               (case create_dataloader_from_dir w2 real_feat_dir of
                  Inl e \<Rightarrow> Inl e
                | Inr real_feat_loader \<Rightarrow>
                    (case create_dataloader_from_dir w2 fake_feat_dir of
                       Inl e \<Rightarrow> Inl e
                     | Inr fake_feat_loader \<Rightarrow>
                         (case fid_of_feat_loaders fid_metric real_feat_loader fake_feat_loader of
                            Inl e \<Rightarrow> Inl e
                          | Inr d \<Rightarrow> Inr (d, w2))))))"

definition evaluate_fid_imagenet2d ::
  "(plane list list \<Rightarrow> 'r list)
     \<Rightarrow> (('r, 'a, 's) world \<Rightarrow> string \<Rightarrow> py_error + ('r list, 'a, 's) npz list)
     \<Rightarrow> ('r list \<Rightarrow> 'r list \<Rightarrow> real)
     \<Rightarrow> (plane list list list, 'a, 's) sample list \<Rightarrow> (plane list list list, 'a, 's) sample list
     \<Rightarrow> string \<Rightarrow> string \<Rightarrow> bool \<Rightarrow> ('r, 'a, 's) world
     \<Rightarrow> py_error + real \<times> ('r, 'a, 's) world" where
  "evaluate_fid_imagenet2d imagenet create_dataloader_from_dir fid_metric
     real_img_loader fake_img_loader real_feat_dir fake_feat_dir skip_existing w =
     (case extract_imagenet_features_to_dir real_img_loader real_feat_dir imagenet
             skip_existing w of
        Inl e \<Rightarrow> Inl e
      | Inr w1 \<Rightarrow>
          (case extract_imagenet_features_to_dir fake_img_loader fake_feat_dir imagenet
                  skip_existing w1 of
             Inl e \<Rightarrow> Inl e
           | Inr w2 \<Rightarrow>
               (case create_dataloader_from_dir w2 real_feat_dir of
                  Inl e \<Rightarrow> Inl e
                | Inr real_feat_loader \<Rightarrow>
                    (case create_dataloader_from_dir w2 fake_feat_dir of
                       Inl e \<Rightarrow> Inl e
                     | Inr fake_feat_loader \<Rightarrow>
                         (case fid_of_feat_loaders fid_metric real_feat_loader fake_feat_loader of
                            Inl e \<Rightarrow> Inl e
                          | Inr d \<Rightarrow> Inr (d, w2))))))"

section \<open>The distance estimator, from the specification\<close>

text \<open>
  Modelled from the spec: the Distributional Distance Estimator. The code calls
  \<^verbatim>\<open>FIDMetric\<close> of the package \<^verbatim>\<open>generative\<close>, whose source is not part of the repository's
  files; the estimator is modelled from section 4.5 of the specification: each matrix is
  summarised by the mean vector and the covariance matrix of its columns, and the distance
  is \<^verbatim>\<open>||mu_real - mu_fake||^2 + trace(C_real + C_fake - 2 * sqrtm(C_real @ C_fake))\<close>.
  A feature matrix is the list of its rows, each of the fixed length \<open>d\<close>. The arithmetic is
  exact; the covariance is the unbiased one (meaningful for two rows or more), and the
  principal matrix square root \<open>sqrtm\<close> is a parameter: any function of a matrix.
\<close>

type_synonym matrix = "real list list"

definition col_mean :: "nat \<Rightarrow> matrix \<Rightarrow> real list" where
  "col_mean d M = map (\<lambda>j. sum_list (map (\<lambda>row. row ! j) M) / real (length M)) [0..<d]"

definition covariance :: "nat \<Rightarrow> matrix \<Rightarrow> matrix" where
  "covariance d M =
     map (\<lambda>i. map (\<lambda>j. sum_list (map (\<lambda>row. (row ! i - col_mean d M ! i) * (row ! j - col_mean d M ! j)) M)
                          / (real (length M) - 1)) [0..<d]) [0..<d]"

definition mat_add :: "matrix \<Rightarrow> matrix \<Rightarrow> matrix" where
  "mat_add A B = map2 (map2 (+)) A B"

definition mat_sub :: "matrix \<Rightarrow> matrix \<Rightarrow> matrix" where
  "mat_sub A B = map2 (map2 (-)) A B"

definition mat_scale :: "real \<Rightarrow> matrix \<Rightarrow> matrix" where
  "mat_scale c A = map (map (\<lambda>x. c * x)) A"

definition mat_mul :: "nat \<Rightarrow> matrix \<Rightarrow> matrix \<Rightarrow> matrix" where
  "mat_mul d A B =
     map (\<lambda>i. map (\<lambda>j. sum_list (map (\<lambda>k. A ! i ! k * B ! k ! j) [0..<d])) [0..<d]) [0..<d]"

definition trace :: "nat \<Rightarrow> matrix \<Rightarrow> real" where
  "trace d A = sum_list (map (\<lambda>i. A ! i ! i) [0..<d])"

definition sq_norm :: "real list \<Rightarrow> real" where
  "sq_norm v = sum_list (map (\<lambda>x. x\<^sup>2) v)"

definition frechet_distance :: "(matrix \<Rightarrow> matrix) \<Rightarrow> nat \<Rightarrow> matrix \<Rightarrow> matrix \<Rightarrow> real" where
  "frechet_distance sqrtm d real_matrix fake_matrix =
     sq_norm (map2 (-) (col_mean d real_matrix) (col_mean d fake_matrix))
     + trace d (mat_sub (mat_add (covariance d real_matrix) (covariance d fake_matrix))
                  (mat_scale 2 (sqrtm (mat_mul d (covariance d real_matrix)
                                                 (covariance d fake_matrix)))))"

section \<open>The feature collection loader, from the specification\<close>

text \<open>
  Modelled from the spec: the Feature Collection Loader. The code calls
  \<^verbatim>\<open>create_dataloader_from_dir\<close> of \<^verbatim>\<open>stai_utils.evaluations.util\<close>, a module of this repository
  that is not among its source files; the loader is modelled from sections 3 and 4.4 of the
  specification. A Feature Record holds the feature vector, age, sex and the source index;
  a Cache Directory is the collection of its records, listed in any order. \<open>load\<close> reads the
  records, sorts them by source index and stacks the feature vectors in that order; it
  fails with \<open>MissingRecord\<close> if an index of the range \<open>[0, count)\<close> is absent, \<open>count\<close> being
  the number of records in the directory.
\<close>

record ('f, 'a, 's) feature_record = "('a, 's) metadata" +
  feature :: 'f
  source_index :: nat

datatype cache_error = MissingRecord

definition load_cache :: "('f, 'a, 's) feature_record list \<Rightarrow> cache_error + 'f list" where
  "load_cache cache_dir =
     (let records = sort_key source_index cache_dir;
          count = length records
      in if list_all (\<lambda>i. i \<in> set (map source_index records)) [0..<count]
         then Inr (map feature records)
         else Inl MissingRecord)"


section \<open>Properties of the pairwise similarity sampler\<close>

text \<open>
  The inner loop, started with \<open>cnt\<close> pairs already accumulated, adds the metric of the
  first \<open>N - cnt\<close> pairs it meets and counts them.
\<close>

lemma msssim_inner_eq:
  "0 \<le> cnt \<Longrightarrow> msssim_inner f N i d1 js (tot, cnt) =
     (tot + sum_list (map (pair_metric f) (take (nat (N - cnt)) (pairs_of i d1 js))),
      cnt + int (length (take (nat (N - cnt)) (pairs_of i d1 js))))"
proof (induction js arbitrary: tot cnt)
  case Nil
  then show ?case by (simp add: pairs_of_def)
next
  case (Cons a js)
  obtain j d2 where a: "a = (j, d2)" by (cases a)
  show ?case
  proof (cases "cnt \<ge> N")
    case True
    then show ?thesis by (simp add: a)
  next
    case False
    then have k: "nat (N - cnt) = Suc (nat (N - (cnt + 1)))" by linarith
    show ?thesis
    proof (cases "i = j")
      case True
      with False Cons show ?thesis by (simp add: a pairs_of_def)
    next
      case ne: False
      have "0 \<le> cnt + 1" using Cons.prems by simp
      from Cons.IH[OF this] False ne show ?thesis
        by (simp add: a pairs_of_def k pair_metric_def)
    qed
  qed
qed

lemma msssim_outer_eq:
  "0 \<le> cnt \<Longrightarrow> msssim_outer f N loader es (tot, cnt) =
     (tot + sum_list (map (pair_metric f) (take (nat (N - cnt))
              (concat (map (\<lambda>(i, d1). pairs_of i d1 (enumerate 0 loader)) es)))),
      cnt + int (length (take (nat (N - cnt))
              (concat (map (\<lambda>(i, d1). pairs_of i d1 (enumerate 0 loader)) es)))))"
proof (induction es arbitrary: tot cnt)
  case Nil
  then show ?case by simp
next
  case (Cons a es)
  obtain i d1 where a: "a = (i, d1)" by (cases a)
  let ?P = "pairs_of i d1 (enumerate 0 loader)"
  let ?k = "nat (N - cnt)"
  let ?c1 = "cnt + int (length (take ?k ?P))"
  have c1: "0 \<le> ?c1" using Cons.prems by simp
  have k': "nat (N - ?c1) = ?k - length ?P"
    by (cases "?k \<le> length ?P") (auto simp: min_def)
  have "msssim_outer f N loader (a # es) (tot, cnt) =
          msssim_outer f N loader es
            (tot + sum_list (map (pair_metric f) (take ?k ?P)), ?c1)"
    by (simp only: a msssim_outer.simps msssim_inner_eq[OF Cons.prems])
  also have "\<dots> = (tot + sum_list (map (pair_metric f) (take ?k ?P))
        + sum_list (map (pair_metric f) (take (?k - length ?P)
              (concat (map (\<lambda>(i, d1). pairs_of i d1 (enumerate 0 loader)) es)))),
      ?c1 + int (length (take (?k - length ?P)
              (concat (map (\<lambda>(i, d1). pairs_of i d1 (enumerate 0 loader)) es)))))"
    by (simp only: Cons.IH[OF c1] k')
  finally show ?case
    by (simp add: a add.assoc)
qed

lemma filter_fst_enumerate:
  "map fst (filter (\<lambda>(j, d2). i \<noteq> j) es) = filter (\<lambda>j. i \<noteq> j) (map fst es)"
  by (induction es) auto

lemma filter_eq_upt: "i < n \<Longrightarrow> filter (\<lambda>j. \<not> i \<noteq> j) [0..<n] = [i]"
  by (induction n) (auto simp: less_Suc_eq)

lemma length_pairs_of:
  assumes i: "i < length xs"
  shows "length (pairs_of i d (enumerate 0 xs)) = length xs - 1"
proof -
  have "length (pairs_of i d (enumerate 0 xs))
        = length (map fst (filter (\<lambda>(j, d2). i \<noteq> j) (enumerate 0 xs)))"
    by (simp add: pairs_of_def)
  also have "\<dots> = length (filter (\<lambda>j. i \<noteq> j) [0..<length xs])"
    by (simp only: filter_fst_enumerate map_fst_enumerate add_0)
  finally have l: "length (pairs_of i d (enumerate 0 xs))
        = length (filter (\<lambda>j. i \<noteq> j) [0..<length xs])" .
  have "length (filter (\<lambda>j. i \<noteq> j) [0..<length xs])
            + length (filter (\<lambda>j. \<not> i \<noteq> j) [0..<length xs]) = length xs"
    using sum_length_filter_compl[of "\<lambda>j. i \<noteq> j" "[0..<length xs]"] by simp
  with filter_eq_upt[OF i] l show ?thesis by simp
qed

lemma sum_list_const_on:
  "(\<And>x. x \<in> set xs \<Longrightarrow> f x = (c::nat)) \<Longrightarrow> sum_list (map f xs) = length xs * c"
  by (induction xs) auto

lemma length_ordered_pairs:
  "length (ordered_pairs xs) = length xs * (length xs - 1)"
proof -
  have "sum_list (map (\<lambda>p. length (case p of (i, d1) \<Rightarrow> pairs_of i d1 (enumerate 0 xs)))
                  (enumerate 0 xs)) = length (enumerate 0 xs) * (length xs - 1)"
    by (rule sum_list_const_on) (auto simp: in_set_enumerate_eq length_pairs_of)
  then show ?thesis
    by (simp add: ordered_pairs_def length_concat comp_def)
qed

lemma msssim_inner_budget_spent:
  "N \<le> cnt \<Longrightarrow> msssim_inner f N i d1 js (tot, cnt) = (tot, cnt)"
  by (cases js) auto

lemma msssim_outer_budget_spent:
  "N \<le> cnt \<Longrightarrow> msssim_outer f N loader es (tot, cnt) = (tot, cnt)"
  by (induction es) (auto simp: msssim_inner_budget_spent)


text \<open>
  Claim C6. For every loader of \<open>n \<ge> 2\<close> samples and every budget \<open>N \<ge> 1\<close>,
  \<open>compute_pairwise_msssim\<close> returns the arithmetic mean of the metric over the first
  \<open>min N (n * (n - 1))\<close> ordered pairs \<open>(i, j)\<close>, \<open>i \<noteq> j\<close>, taken in the order of the nested
  loops (for each \<open>i\<close>, for each \<open>j\<close>, \<open>i = j\<close> skipped): accumulation stops once the count
  reaches \<open>N\<close>.
\<close>

theorem compute_pairwise_msssim_mean_of_first_pairs:
  assumes "2 \<le> length loader" and "1 \<le> N"
  shows "compute_pairwise_msssim msssim loader N =
     Inr (sum_list (map (pair_metric msssim) (take (nat N) (ordered_pairs loader)))
          / real (min (nat N) (length loader * (length loader - 1))))"
proof -
  from assms have "0 < length loader" and "0 < length loader - 1" by auto
  then have "0 < length loader * (length loader - 1)" by simp
  with assms have pos: "0 < min (nat N) (length loader * (length loader - 1))" by simp
  have "msssim_outer msssim N loader (enumerate 0 loader) (0, 0) =
        (sum_list (map (pair_metric msssim) (take (nat N) (ordered_pairs loader))),
         int (min (nat N) (length loader * (length loader - 1))))"
    using msssim_outer_eq[of 0 msssim N loader "enumerate 0 loader" 0]
    by (simp add: ordered_pairs_def[symmetric] length_ordered_pairs min.commute)
  then show ?thesis
    using pos by (simp add: compute_pairwise_msssim_def)
qed

theorem compute_pairwise_msssim_mean_witness:
  "2 \<le> length [\<lparr>vol_data = 1::real\<rparr>, \<lparr>vol_data = 3\<rparr>, \<lparr>vol_data = 7\<rparr>] \<and> (1::int) \<le> 4 \<and>
   compute_pairwise_msssim (-) [\<lparr>vol_data = 1::real\<rparr>, \<lparr>vol_data = 3\<rparr>, \<lparr>vol_data = 7\<rparr>] 4
     = Inr (((1 - 3) + (1 - 7) + (3 - 1) + (3 - 7)) / 4)"
  using compute_pairwise_msssim_mean_of_first_pairs
          [of "[\<lparr>vol_data = 1::real\<rparr>, \<lparr>vol_data = 3\<rparr>, \<lparr>vol_data = 7\<rparr>]" 4 "(-)"]
  by (simp add: ordered_pairs_def pairs_of_def pair_metric_def enumerate_eq_zip upt_rec)

text \<open>
  Claim C3 (as amended). The code has no guard before \<^verbatim>\<open>tot_metric / count\<close>. With a budget
  \<open>N \<le> 0\<close>, or with a loader of fewer than two samples, no pair is accumulated, the count is
  \<open>0\<close> at the end and the division raises Python's \<open>ZeroDivisionError\<close>: no value is returned.
\<close>

theorem compute_pairwise_msssim_zero_division:
  "N \<le> 0 \<or> length loader < 2 \<Longrightarrow>
     compute_pairwise_msssim msssim loader N = Inl ZeroDivisionError"
proof (cases "N \<le> 0")
  case True
  then show ?thesis by (simp add: compute_pairwise_msssim_def msssim_outer_budget_spent)
next
  case False
  assume "N \<le> 0 \<or> length loader < 2"
  with False have "length loader < 2" by simp
  then consider "loader = []" | d where "loader = [d]"
    by (cases loader) (auto simp: length_Suc_conv)
  then show ?thesis
    by cases (auto simp: compute_pairwise_msssim_def)
qed

theorem compute_pairwise_msssim_zero_division_witness:
  "((1000::int) \<le> 0 \<or> length [\<lparr>vol_data = 1::real\<rparr>] < 2) \<and>
   compute_pairwise_msssim (-) [\<lparr>vol_data = 1::real\<rparr>] 1000 = Inl ZeroDivisionError"
  using compute_pairwise_msssim_zero_division [of 1000 "[\<lparr>vol_data = 1::real\<rparr>]" "(-)"]
  by simp

text \<open>
  The claim as first stated (a budget of \<open>0\<close> never leads to a division by zero) fails: with
  two samples and \<open>N = 0\<close> the division by the zero count is reached and raises.
\<close>

theorem compute_pairwise_msssim_budget_zero_counterexample:
  "compute_pairwise_msssim (-) [\<lparr>vol_data = 1::real\<rparr>, \<lparr>vol_data = 3\<rparr>] 0 = Inl ZeroDivisionError"
  by (simp add: compute_pairwise_msssim_def)

section \<open>Properties of the volume normalisation\<close>

text \<open>
  The function is its two stages in sequence. The first stage gives every voxel the
  quotient \<open>(x - mean) / std\<close>, with the mean and the standard deviation of the strictly
  positive voxels.
\<close>

lemma fdiv_nan: "fdiv x NaN = NaN"
  by (cases x) simp_all

lemma mask_select_filter: "mask_select (map P xs) xs = filter P xs"
  by (induction xs) (auto simp: mask_select_def)

lemma mask_select_map: "mask_select (map P xs) (map f xs) = map f (filter P xs)"
  by (induction xs) (auto simp: mask_select_def)

lemma itensity_normalize_stages:
  "itensity_normalize_one_volume normal volume r =
     assign_draws normal volume (normalized volume) r"
  by (simp add: itensity_normalize_one_volume_def assign_draws_def normalized_def Let_def)

lemma normalized_pointwise:
  "normalized volume =
     map (\<lambda>x. fdiv (fsub (Fin x) (tensor_mean (filter (\<lambda>x. 0 < x) volume)))
                    (tensor_std (filter (\<lambda>x. 0 < x) volume))) volume"
  by (simp add: normalized_def mask_select_filter)

text \<open>
  The second stage. A mask of any length but one makes the draws selected an array, which
  the tensor does not take: the assignment raises whatever the array \<open>out\<close> holds. For a
  volume of one voxel the mask is read as the index \<open>0\<close> or \<open>1\<close>: index \<open>1\<close> (the voxel is zero)
  is out of range, index \<open>0\<close> gives a number, which is written nowhere since the mask is false.
\<close>

lemma ndarray_getitem_array:
  "length msk \<noteq> 1 \<Longrightarrow> ndarray_getitem a msk = Inr (Array (mask_select msk a))"
  by (auto simp: ndarray_getitem_def split: list.splits)

lemma assign_draws_raises:
  "length volume \<noteq> 1 \<Longrightarrow> assign_draws normal volume out r = Inl TypeError"
  by (simp add: assign_draws_def random_normal_def ndarray_getitem_array tensor_setitem_def)

lemma itensity_normalize_raises:
  "length volume \<noteq> 1 \<Longrightarrow> itensity_normalize_one_volume normal volume r = Inl TypeError"
  by (simp add: itensity_normalize_stages assign_draws_raises)

lemma assign_draws_one_voxel:
  "assign_draws normal [x] [y] r = (if x = 0 then Inl IndexError else Inr ([y], r + 1))"
  by (simp add: assign_draws_def random_normal_def ndarray_getitem_def tensor_setitem_def)

lemma itensity_normalize_one_voxel:
  "itensity_normalize_one_volume normal [x] r =
     (if x = 0 then Inl IndexError else Inr ([NaN], r + 1))"
  by (simp add: itensity_normalize_stages assign_draws_one_voxel normalized_pointwise
      tensor_std_def fdiv_nan)

text \<open>
  Claim C1 (as amended). The normalisation has no check for an empty foreground and raises
  nothing on account of it. For a volume with no strictly positive voxel the mean and the
  standard deviation of the foreground are NaN and every voxel of the normalised array is
  NaN; the outcome of the function is that of the final assignment applied to this array
  of NaN, the same assignment as for any other volume.
\<close>

theorem itensity_normalize_empty_foreground:
  assumes "list_all (\<lambda>x. x \<le> 0) volume"
  shows "tensor_mean (mask_select (map (\<lambda>x. x > 0) volume) volume) = NaN \<and>
         tensor_std (mask_select (map (\<lambda>x. x > 0) volume) volume) = NaN \<and>
         normalized volume = map (\<lambda>x. NaN) volume \<and>
         itensity_normalize_one_volume normal volume r =
           assign_draws normal volume (map (\<lambda>x. NaN) volume) r"
proof -
  from assms have e: "filter (\<lambda>x. 0 < x) volume = []"
    by (auto simp: filter_empty_conv list_all_iff)
  have m: "tensor_mean (mask_select (map (\<lambda>x. x > 0) volume) volume) = NaN"
    by (simp add: mask_select_filter e tensor_mean_def)
  have s: "tensor_std (mask_select (map (\<lambda>x. x > 0) volume) volume) = NaN"
    by (simp add: mask_select_filter e tensor_std_def)
  have n: "normalized volume = map (\<lambda>x. NaN) volume"
    unfolding normalized_def m s by simp
  from m s n show ?thesis
    by (simp add: itensity_normalize_stages)
qed

theorem itensity_normalize_empty_foreground_witness:
  "list_all (\<lambda>x. x \<le> 0) [0, - 3, 0 :: real] \<and>
   normalized [0, - 3, 0] = [NaN, NaN, NaN] \<and>
   itensity_normalize_one_volume real [0, - 3, 0] 5 = Inl TypeError"
  using itensity_normalize_empty_foreground [of "[0, - 3, 0]" real 5]
  by (simp add: assign_draws_raises)

text \<open>
  The claim as first stated fails: the volume of the single voxel \<open>-1\<close> has no strictly
  positive voxel, and the function raises nothing: it returns the array whose only entry
  is NaN.
\<close>

theorem itensity_normalize_no_error_counterexample:
  "itensity_normalize_one_volume real [- 1] 0 = Inr ([NaN], 1)"
  by (simp add: itensity_normalize_one_volume_def random_normal_def mask_select_def
      ndarray_getitem_def tensor_setitem_def tensor_mean_def tensor_std_def)

text \<open>
  Statistics of a list with two different elements: the unbiased standard deviation is
  positive, and the list shifted by its mean and scaled by its standard deviation has mean
  \<open>0\<close> and standard deviation \<open>1\<close>.
\<close>

lemma sum_list_shift_scale:
  "sum_list (map (\<lambda>x. (x - c) / s) xs) = (sum_list xs - real (length xs) * c) / (s::real)"
  by (induction xs) (simp_all add: field_simps add_divide_distrib diff_divide_distrib)

lemma sum_list_sq_scale:
  "sum_list (map (\<lambda>x. ((x - c) / s)\<^sup>2) xs) = sum_list (map (\<lambda>x. (x - c)\<^sup>2) xs) / (s::real)\<^sup>2"
  by (induction xs) (simp_all add: power_divide add_divide_distrib)

lemma elem_le_sum_list_sq:
  "y \<in> set xs \<Longrightarrow> (y - c)\<^sup>2 \<le> sum_list (map (\<lambda>x. (x - (c::real))\<^sup>2) xs)"
proof (induction xs)
  case Nil
  then show ?case by simp
next
  case (Cons x xs)
  have nn: "0 \<le> sum_list (map (\<lambda>x. (x - c)\<^sup>2) xs)"
    by (rule sum_list_nonneg) auto
  show ?case
  proof (cases "y = x")
    case True
    with nn show ?thesis by simp
  next
    case False
    with Cons have "(y - c)\<^sup>2 \<le> sum_list (map (\<lambda>x. (x - c)\<^sup>2) xs)" by simp
    moreover have "0 \<le> (x - c)\<^sup>2" by simp
    ultimately have "(y - c)\<^sup>2 \<le> (x - c)\<^sup>2 + sum_list (map (\<lambda>x. (x - c)\<^sup>2) xs)"
      by linarith
    then show ?thesis by simp
  qed
qed

lemma spread_pos:
  assumes "a \<in> set xs" "b \<in> set xs" "a \<noteq> b"
  shows "0 < sum_list (map (\<lambda>x. (x - (c::real))\<^sup>2) xs)"
proof -
  from assms obtain y where y: "y \<in> set xs" "y \<noteq> c" by (cases "a = c") auto
  then have "0 < (y - c)\<^sup>2" by simp
  with elem_le_sum_list_sq[OF y(1), of c] show ?thesis by linarith
qed

lemma two_distinct_length:
  assumes "a \<in> set xs" "b \<in> set xs" "a \<noteq> b"
  shows "2 \<le> length xs"
proof -
  from assms have "card {a, b} \<le> card (set xs)"
    by (intro card_mono) auto
  with assms(3) have "2 \<le> card (set xs)" by simp
  with card_length[of xs] show ?thesis by linarith
qed

lemma standardised_stats:
  fixes xs :: "real list"
  assumes "a \<in> set xs" "b \<in> set xs" "a \<noteq> b"
  defines "\<mu> \<equiv> sum_list xs / real (length xs)"
  defines "\<sigma> \<equiv> sqrt (sum_list (map (\<lambda>x. (x - \<mu>)\<^sup>2) xs) / (real (length xs) - 1))"
  shows "0 < \<sigma>"
    and "tensor_mean xs = Fin \<mu>"
    and "tensor_std xs = Fin \<sigma>"
    and "tensor_mean (map (\<lambda>x. (x - \<mu>) / \<sigma>) xs) = Fin 0"
    and "tensor_std (map (\<lambda>x. (x - \<mu>) / \<sigma>) xs) = Fin 1"
proof -
  have n: "2 \<le> length xs" using assms(1-3) by (rule two_distinct_length)
  then have ne: "xs \<noteq> []" by auto
  let ?S = "sum_list (map (\<lambda>x. (x - \<mu>)\<^sup>2) xs)"
  have S: "0 < ?S" using assms(1-3) by (rule spread_pos)
  have n1: "0 < real (length xs) - 1" using n by simp
  have v: "0 < ?S / (real (length xs) - 1)" using S n1 by simp
  show s: "0 < \<sigma>" unfolding \<sigma>_def using v by simp
  have s2: "\<sigma>\<^sup>2 = ?S / (real (length xs) - 1)"
    unfolding \<sigma>_def using v by simp
  show "tensor_mean xs = Fin \<mu>" using ne by (simp add: tensor_mean_def \<mu>_def)
  show "tensor_std xs = Fin \<sigma>" using n by (simp add: tensor_std_def \<mu>_def \<sigma>_def)
  have sum0: "sum_list (map (\<lambda>x. (x - \<mu>) / \<sigma>) xs) = 0"
    using ne by (simp add: sum_list_shift_scale \<mu>_def)
  show "tensor_mean (map (\<lambda>x. (x - \<mu>) / \<sigma>) xs) = Fin 0"
    using ne by (simp add: tensor_mean_def sum0)
  have "sum_list (map (\<lambda>y. (y - 0)\<^sup>2) (map (\<lambda>x. (x - \<mu>) / \<sigma>) xs)) = ?S / \<sigma>\<^sup>2"
    by (simp add: comp_def sum_list_sq_scale)
  also have "\<dots> = real (length xs) - 1"
    using S n1 by (simp add: s2)
  finally have "sum_list (map (\<lambda>y. (y - 0)\<^sup>2) (map (\<lambda>x. (x - \<mu>) / \<sigma>) xs))
        / (real (length xs) - 1) = 1"
    using n1 by simp
  then show "tensor_std (map (\<lambda>x. (x - \<mu>) / \<sigma>) xs) = Fin 1"
    using n by (simp add: tensor_std_def sum0)
qed


text \<open>
  What the first stage computes for a volume whose foreground holds two different values:
  the mean \<open>\<mu>\<close> and the standard deviation \<open>\<sigma>\<close> are those of the strictly positive voxels
  only, \<open>\<sigma>\<close> is positive, every voxel is mapped to \<open>(x - \<mu>) / \<sigma>\<close>, and the normalised
  foreground values have mean \<open>0\<close> and standard deviation \<open>1\<close> (in exact arithmetic).
\<close>

lemma normalized_standardises_foreground:
  assumes "a \<in> set volume" and "b \<in> set volume" and "0 < a" and "a < b"
  shows "\<exists>\<mu> \<sigma>. 0 < \<sigma>
      \<and> tensor_mean (filter (\<lambda>x. 0 < x) volume) = Fin \<mu>
      \<and> tensor_std (filter (\<lambda>x. 0 < x) volume) = Fin \<sigma>
      \<and> normalized volume = map (\<lambda>x. Fin ((x - \<mu>) / \<sigma>)) volume
      \<and> mask_select (map (\<lambda>x. 0 < x) volume) (normalized volume) =
          map (\<lambda>x. Fin ((x - \<mu>) / \<sigma>)) (filter (\<lambda>x. 0 < x) volume)
      \<and> tensor_mean (map (\<lambda>x. (x - \<mu>) / \<sigma>) (filter (\<lambda>x. 0 < x) volume)) = Fin 0
      \<and> tensor_std (map (\<lambda>x. (x - \<mu>) / \<sigma>) (filter (\<lambda>x. 0 < x) volume)) = Fin 1"
proof -
  let ?px = "filter (\<lambda>x. 0 < x) volume"
  let ?\<mu> = "sum_list ?px / real (length ?px)"
  let ?\<sigma> = "sqrt (sum_list (map (\<lambda>x. (x - ?\<mu>)\<^sup>2) ?px) / (real (length ?px) - 1))"
  have ab: "a \<in> set ?px" "b \<in> set ?px" "a \<noteq> b" using assms by auto
  note st = standardised_stats[OF ab]
  from st(1) have nz: "?\<sigma> \<noteq> 0" by linarith
  have out: "normalized volume = map (\<lambda>x. Fin ((x - ?\<mu>) / ?\<sigma>)) volume"
    unfolding normalized_pointwise st(2) st(3) using nz by simp
  have fg: "mask_select (map (\<lambda>x. 0 < x) volume) (normalized volume) =
          map (\<lambda>x. Fin ((x - ?\<mu>) / ?\<sigma>)) ?px"
    unfolding out by (rule mask_select_map)
  from st(1) st(2) st(3) out fg st(4) st(5) show ?thesis by blast
qed

text \<open>
  Claim C5. The claim describes the normalised volume that the function is written to
  return (its docstring: \<^verbatim>\<open>out: the normalized nd volume\<close>). The first four lines compute the
  quotients, here \<open>-1, 0, 1\<close> for the foreground \<open>2, 4, 6\<close>; then the last assignment receives
  a numpy array for a torch tensor and raises a \<open>TypeError\<close>, as it does for every volume of
  two or more voxels: no normalised volume is returned and no draw replaces a zero.
\<close>

theorem itensity_normalize_raises_type_error:
  "normalized [2, 4, 6, 0, - 2] = [Fin (- 1), Fin 0, Fin 1, Fin (- 2), Fin (- 3)] \<and>
   itensity_normalize_one_volume real [2, 4, 6, 0, - 2] 0 = Inl TypeError"
  by (simp add: normalized_pointwise tensor_mean_def tensor_std_def power2_eq_square
      itensity_normalize_raises)

section \<open>Properties of the record files\<close>

text \<open>
  The name of a record file determines its index: the decimal rendering of a number is
  injective, and so is the path built from it in one directory.
\<close>

declare str_of_nat.simps [simp del]

lemma digit_char_inj: "a < 10 \<Longrightarrow> b < 10 \<Longrightarrow> digit_char a = digit_char b \<Longrightarrow> a = b"
  unfolding digit_char_def
  using nth_eq_iff_index_eq[of "''0123456789''" a b] by simp

lemma str_of_nat_nonempty: "str_of_nat n \<noteq> []"
  by (subst str_of_nat.simps) simp

lemma str_of_nat_inj: "str_of_nat m = str_of_nat n \<Longrightarrow> m = n"
proof (induction m arbitrary: n rule: str_of_nat.induct)
  case (1 m)
  show ?case
  proof (cases "m < 10")
    case m: True
    show ?thesis
    proof (cases "n < 10")
      case True
      with m "1.prems" show ?thesis
        by (simp add: str_of_nat.simps[of m] str_of_nat.simps[of n] digit_char_inj)
    next
      case False
      with m "1.prems" show ?thesis
        by (simp add: str_of_nat.simps[of m] str_of_nat.simps[of n] str_of_nat_nonempty
            Cons_eq_append_conv)
    qed
  next
    case m: False
    show ?thesis
    proof (cases "n < 10")
      case True
      with m "1.prems" show ?thesis
        by (simp add: str_of_nat.simps[of m] str_of_nat.simps[of n] str_of_nat_nonempty
            append_eq_Cons_conv)
    next
      case False
      with m "1.prems" have e: "str_of_nat (m div 10) = str_of_nat (n div 10)"
        and d: "digit_char (m mod 10) = digit_char (n mod 10)"
        by (simp_all add: str_of_nat.simps[of m] str_of_nat.simps[of n])
      from "1.IH"[OF m e] have "m div 10 = n div 10" .
      moreover from d have "m mod 10 = n mod 10" by (simp add: digit_char_inj)
      ultimately show ?thesis by (metis div_mult_mod_eq)
    qed
  qed
qed

lemma feat_name_inj: "feat_name i = feat_name j \<Longrightarrow> i = j"
  by (simp add: feat_name_def str_of_nat_inj)

lemma save_path_of_inj: "save_path_of dest_dir i = save_path_of dest_dir j \<Longrightarrow> i = j"
  by (auto simp: save_path_of_def path_join_def feat_name_def str_of_nat_inj split: if_splits)


text \<open>
  One iteration of the extraction loop for volumes, in a run that completes, either skips
  the sample (the flag is set and the file exists) or normalises, calls the extractor once
  and writes the file. Files that exist are never removed, and no path but those of the
  samples is written.
\<close>

lemma path_exists_np_savez [simp]:
  "path_exists (np_savez p c w) q = (q = p \<or> path_exists w q)"
  by (auto simp: path_exists_def np_savez_def)

lemma path_exists_counters [simp]:
  "path_exists (w\<lparr>rng := r\<rparr>) q = path_exists w q"
  "path_exists (w\<lparr>inference_calls := k\<rparr>) q = path_exists w q"
  by (simp_all add: path_exists_def)

lemma files_np_savez [simp]:
  "files (np_savez p c w) = (files w)(p \<mapsto> c)"
  by (simp add: np_savez_def)

lemma medicalnet_step_cases:
  assumes "extract_medicalnet_loop normal fe dest skip ((i, d) # es) w = Inr w'"
  obtains (skipped) "skip" and "path_exists w (save_path_of dest i)"
      and "extract_medicalnet_loop normal fe dest skip es w = Inr w'"
  | (written) img r feat0 others
    where "\<not> (skip \<and> path_exists w (save_path_of dest i))"
      and "itensity_normalize_one_volume normal (image_arr d) (rng w) = Inr (img, r)"
      and "fe img = feat0 # others"
      and "extract_medicalnet_loop normal fe dest skip es
             (np_savez (save_path_of dest i) \<lparr>age = age d, sex = sex d, feat = feat0\<rparr>
                (w\<lparr>rng := r, inference_calls := Suc (inference_calls w)\<rparr>)) = Inr w'"
  using assms by (auto split: if_splits sum.splits prod.splits list.splits)

lemma medicalnet_loop_files_kept:
  "extract_medicalnet_loop normal fe dest skip es w = Inr w' \<Longrightarrow>
   path_exists w p \<Longrightarrow> path_exists w' p"
proof (induction es arbitrary: w)
  case Nil
  then show ?case by simp
next
  case (Cons e es)
  obtain i d where e: "e = (i, d)" by (cases e)
  from Cons.prems(1)[unfolded e] show ?case
  proof (cases rule: medicalnet_step_cases)
    case skipped
    with Cons.IH Cons.prems(2) show ?thesis by blast
  next
    case (written img r feat0 others)
    from Cons.IH[OF written(4)] Cons.prems(2) show ?thesis by simp
  qed
qed

lemma medicalnet_loop_all_written:
  "extract_medicalnet_loop normal fe dest skip es w = Inr w' \<Longrightarrow>
   (i, d) \<in> set es \<Longrightarrow> path_exists w' (save_path_of dest i)"
proof (induction es arbitrary: w)
  case Nil
  then show ?case by simp
next
  case (Cons e es)
  obtain j dj where e: "e = (j, dj)" by (cases e)
  from Cons.prems(1)[unfolded e] show ?case
  proof (cases rule: medicalnet_step_cases)
    case skipped
    show ?thesis
    proof (cases "(i, d) \<in> set es")
      case True
      with Cons.IH skipped(3) show ?thesis by blast
    next
      case False
      with Cons.prems(2) have "j = i" by (simp add: e)
      with skipped(2) medicalnet_loop_files_kept[OF skipped(3)] show ?thesis by blast
    qed
  next
    case (written img r feat0 others)
    show ?thesis
    proof (cases "(i, d) \<in> set es")
      case True
      with Cons.IH written(4) show ?thesis by blast
    next
      case False
      with Cons.prems(2) have "j = i" by (simp add: e)
      with medicalnet_loop_files_kept[OF written(4), of "save_path_of dest i"]
      show ?thesis by simp
    qed
  qed
qed

lemma medicalnet_loop_skips_all:
  "list_all (\<lambda>(i, d). path_exists w (save_path_of dest i)) es \<Longrightarrow>
   extract_medicalnet_loop normal fe dest True es w = Inr w"
  by (induction es) auto

lemma medicalnet_rerun:
  assumes "extract_medicalnet_features_to_dir normal loader dest fe skip w = Inr w'"
  shows "extract_medicalnet_features_to_dir normal loader dest fe True w' = Inr w'"
proof -
  have "list_all (\<lambda>(i, d). path_exists w' (save_path_of dest i)) (enumerate 0 loader)"
    using assms medicalnet_loop_all_written
    unfolding extract_medicalnet_features_to_dir_def list_all_iff by fast
  then show ?thesis
    unfolding extract_medicalnet_features_to_dir_def by (rule medicalnet_loop_skips_all)
qed


lemma medicalnet_loop_frame:
  "extract_medicalnet_loop normal fe dest skip es w = Inr w' \<Longrightarrow>
   p \<notin> save_path_of dest ` fst ` set es \<Longrightarrow> files w' p = files w p"
proof (induction es arbitrary: w)
  case Nil
  then show ?case by simp
next
  case (Cons e es)
  obtain i d where e: "e = (i, d)" by (cases e)
  from Cons.prems(2) have p: "p \<notin> save_path_of dest ` fst ` set es" "p \<noteq> save_path_of dest i"
    by (auto simp: e)
  from Cons.prems(1)[unfolded e] show ?case
  proof (cases rule: medicalnet_step_cases)
    case skipped
    with Cons.IH p(1) show ?thesis by blast
  next
    case (written img r feat0 others)
    from Cons.IH[OF written(4) p(1)] p(2) show ?thesis by simp
  qed
qed

lemma medicalnet_loop_record:
  "extract_medicalnet_loop normal fe dest skip es w = Inr w' \<Longrightarrow>
   distinct (map fst es) \<Longrightarrow> (i, d) \<in> set es \<Longrightarrow>
   \<not> (skip \<and> path_exists w (save_path_of dest i)) \<Longrightarrow>
   \<exists>r img r' feat0 others.
      itensity_normalize_one_volume normal (image_arr d) r = Inr (img, r') \<and>
      fe img = feat0 # others \<and>
      files w' (save_path_of dest i) = Some \<lparr>age = age d, sex = sex d, feat = feat0\<rparr>"
proof (induction es arbitrary: w)
  case Nil
  then show ?case by simp
next
  case (Cons e es)
  obtain j dj where e: "e = (j, dj)" by (cases e)
  from Cons.prems(2) have dist: "distinct (map fst es)" and j: "j \<notin> fst ` set es"
    by (simp_all add: e)
  from Cons.prems(1)[unfolded e] show ?case
  proof (cases rule: medicalnet_step_cases)
    case skipped
    with Cons.prems(4) have "j \<noteq> i" by auto
    with Cons.prems(3) have "(i, d) \<in> set es" by (simp add: e)
    from Cons.IH[OF skipped(3) dist this Cons.prems(4)] show ?thesis .
  next
    case (written img r feat0 others)
    show ?thesis
    proof (cases "j = i")
      case True
      with j Cons.prems(3) have d: "dj = d" by (force simp: e)
      from j True have "save_path_of dest i \<notin> save_path_of dest ` fst ` set es"
        by (auto dest: save_path_of_inj)
      from medicalnet_loop_frame[OF written(4) this]
      have "files w' (save_path_of dest i) = Some \<lparr>age = age d, sex = sex d, feat = feat0\<rparr>"
        by (simp add: True d)
      moreover from written(2)
      have "itensity_normalize_one_volume normal (image_arr d) (rng w) = Inr (img, r)"
        by (simp add: d)
      ultimately show ?thesis using written(3) by blast
    next
      case False
      with Cons.prems(3) have mem: "(i, d) \<in> set es" by (simp add: e)
      from False have "save_path_of dest i \<noteq> save_path_of dest j"
        by (auto dest: save_path_of_inj)
      with Cons.prems(4) have "\<not> (skip \<and> path_exists
          (np_savez (save_path_of dest j) \<lparr>age = age dj, sex = sex dj, feat = feat0\<rparr>
             (w\<lparr>rng := r, inference_calls := Suc (inference_calls w)\<rparr>)) (save_path_of dest i))"
        by simp
      from Cons.IH[OF written(4) dist mem this] show ?thesis .
    qed
  qed
qed



text \<open>The same facts for the loop over central slices.\<close>

lemma imagenet_step_cases:
  assumes "extract_imagenet_loop fe dest skip ((i, d) # es) w = Inr w'"
  obtains (skipped) img where "central_slice (image_arr d) = Inr img"
      and "skip" and "path_exists w (save_path_of dest i)"
      and "extract_imagenet_loop fe dest skip es w = Inr w'"
  | (written) img feat0 others
    where "central_slice (image_arr d) = Inr img"
      and "\<not> (skip \<and> path_exists w (save_path_of dest i))"
      and "get_imagenet_features img fe = Inr (feat0 # others)"
      and "extract_imagenet_loop fe dest skip es
             (np_savez (save_path_of dest i) \<lparr>age = age d, sex = sex d, feat = feat0\<rparr>
                (w\<lparr>inference_calls := Suc (inference_calls w)\<rparr>)) = Inr w'"
  using assms by (auto split: if_splits sum.splits list.splits)

lemma imagenet_loop_files_kept:
  "extract_imagenet_loop fe dest skip es w = Inr w' \<Longrightarrow>
   path_exists w p \<Longrightarrow> path_exists w' p"
proof (induction es arbitrary: w)
  case Nil
  then show ?case by simp
next
  case (Cons e es)
  obtain i d where e: "e = (i, d)" by (cases e)
  from Cons.prems(1)[unfolded e] show ?case
  proof (cases rule: imagenet_step_cases)
    case (skipped img)
    with Cons.IH Cons.prems(2) show ?thesis by blast
  next
    case (written img feat0 others)
    from Cons.IH[OF written(4)] Cons.prems(2) show ?thesis by simp
  qed
qed

lemma imagenet_loop_all_written:
  "extract_imagenet_loop fe dest skip es w = Inr w' \<Longrightarrow> (i, d) \<in> set es \<Longrightarrow>
   path_exists w' (save_path_of dest i) \<and> (\<exists>img. central_slice (image_arr d) = Inr img)"
proof (induction es arbitrary: w)
  case Nil
  then show ?case by simp
next
  case (Cons e es)
  obtain j dj where e: "e = (j, dj)" by (cases e)
  from Cons.prems(1)[unfolded e] show ?case
  proof (cases rule: imagenet_step_cases)
    case (skipped img)
    show ?thesis
    proof (cases "(i, d) \<in> set es")
      case True
      with Cons.IH skipped(4) show ?thesis by blast
    next
      case False
      with Cons.prems(2) have "j = i" "dj = d" by (simp_all add: e)
      with skipped(1,3) imagenet_loop_files_kept[OF skipped(4)] show ?thesis by blast
    qed
  next
    case (written img feat0 others)
    show ?thesis
    proof (cases "(i, d) \<in> set es")
      case True
      with Cons.IH written(4) show ?thesis by blast
    next
      case False
      with Cons.prems(2) have "j = i" "dj = d" by (simp_all add: e)
      with written(1) imagenet_loop_files_kept[OF written(4), of "save_path_of dest i"]
      show ?thesis by simp
    qed
  qed
qed

lemma imagenet_loop_skips_all:
  "list_all (\<lambda>(i, d). path_exists w (save_path_of dest i)
      \<and> (\<exists>img. central_slice (image_arr d) = Inr img)) es \<Longrightarrow>
   extract_imagenet_loop fe dest True es w = Inr w"
  by (induction es) auto

lemma imagenet_rerun:
  assumes "extract_imagenet_features_to_dir loader dest fe skip w = Inr w'"
  shows "extract_imagenet_features_to_dir loader dest fe True w' = Inr w'"
proof -
  have "list_all (\<lambda>(i, d). path_exists w' (save_path_of dest i)
      \<and> (\<exists>img. central_slice (image_arr d) = Inr img)) (enumerate 0 loader)"
    using assms imagenet_loop_all_written
    unfolding extract_imagenet_features_to_dir_def list_all_iff by fast
  then show ?thesis
    unfolding extract_imagenet_features_to_dir_def by (rule imagenet_loop_skips_all)
qed



text \<open>
  The loop over central slices writes the record of every sample it does not skip: the
  file of the sample's index holds the first row of the features, the age and the sex, and
  no file outside the names of the samples is touched.
\<close>

lemma imagenet_loop_frame:
  "extract_imagenet_loop fe dest skip es w = Inr w' \<Longrightarrow>
   p \<notin> save_path_of dest ` fst ` set es \<Longrightarrow> files w' p = files w p"
proof (induction es arbitrary: w)
  case Nil
  then show ?case by simp
next
  case (Cons e es)
  obtain i d where e: "e = (i, d)" by (cases e)
  from Cons.prems(2) have p: "p \<notin> save_path_of dest ` fst ` set es" "p \<noteq> save_path_of dest i"
    by (auto simp: e)
  from Cons.prems(1)[unfolded e] show ?case
  proof (cases rule: imagenet_step_cases)
    case (skipped img)
    with Cons.IH p(1) show ?thesis by blast
  next
    case (written img feat0 others)
    from Cons.IH[OF written(4) p(1)] p(2) show ?thesis by simp
  qed
qed

lemma imagenet_loop_record:
  "extract_imagenet_loop fe dest skip es w = Inr w' \<Longrightarrow>
   distinct (map fst es) \<Longrightarrow> (i, d) \<in> set es \<Longrightarrow>
   \<not> (skip \<and> path_exists w (save_path_of dest i)) \<Longrightarrow>
   \<exists>img feat0 others.
      central_slice (image_arr d) = Inr img \<and>
      get_imagenet_features img fe = Inr (feat0 # others) \<and>
      files w' (save_path_of dest i) = Some \<lparr>age = age d, sex = sex d, feat = feat0\<rparr>"
proof (induction es arbitrary: w)
  case Nil
  then show ?case by simp
next
  case (Cons e es)
  obtain j dj where e: "e = (j, dj)" by (cases e)
  from Cons.prems(2) have dist: "distinct (map fst es)" and j: "j \<notin> fst ` set es"
    by (simp_all add: e)
  from Cons.prems(1)[unfolded e] show ?case
  proof (cases rule: imagenet_step_cases)
    case (skipped img)
    with Cons.prems(4) have "j \<noteq> i" by auto
    with Cons.prems(3) have "(i, d) \<in> set es" by (simp add: e)
    from Cons.IH[OF skipped(4) dist this Cons.prems(4)] show ?thesis .
  next
    case (written img feat0 others)
    show ?thesis
    proof (cases "j = i")
      case True
      with j Cons.prems(3) have d: "dj = d" by (force simp: e)
      from j True have "save_path_of dest i \<notin> save_path_of dest ` fst ` set es"
        by (auto dest: save_path_of_inj)
      from imagenet_loop_frame[OF written(4) this]
      have "files w' (save_path_of dest i) = Some \<lparr>age = age d, sex = sex d, feat = feat0\<rparr>"
        by (simp add: True d)
      with written(1,3) show ?thesis by (auto simp: d)
    next
      case False
      with Cons.prems(3) have mem: "(i, d) \<in> set es" by (simp add: e)
      from False have "save_path_of dest i \<noteq> save_path_of dest j"
        by (auto dest: save_path_of_inj)
      with Cons.prems(4) have "\<not> (skip \<and> path_exists
          (np_savez (save_path_of dest j) \<lparr>age = age dj, sex = sex dj, feat = feat0\<rparr>
             (w\<lparr>inference_calls := Suc (inference_calls w)\<rparr>)) (save_path_of dest i))"
        by simp
      from Cons.IH[OF written(4) dist mem this] show ?thesis .
    qed
  qed
qed

text \<open>A run of the loop over central slices on a small loader, evaluated.\<close>

lemma imagenet_example_run:
  "extract_imagenet_features_to_dir
     [\<lparr>age = 30::nat, sex = True, image_arr = [[[[[1]], [[2]], [[3]]]]]\<rparr>]
     ''fake/'' (\<lambda>x. x) False \<lparr>files = Map.empty, rng = 0, inference_calls = 0\<rparr>
   = Inr \<lparr>files = [''fake/feat_0.npz'' \<mapsto>
                     \<lparr>age = 30, sex = True, feat = [[[2 - 406 / 1000]], [[2 - 456 / 1000]], [[2 - 485 / 1000]]]\<rparr>],
          rng = 0, inference_calls = 1\<rparr>"
  by (simp add: extract_imagenet_features_to_dir_def enumerate_eq_zip upt_rec
      save_path_of_def path_join_def feat_name_def str_of_nat.simps digit_char_def
      path_exists_def np_savez_def central_slice_def middle_def
      get_imagenet_features_def channel_replication_def shape1_def repeat_channels_def
      select_channels_def subtract_mean_def minus_const_def)

text \<open>
  Claim C4. After a run of feature extraction that completed (with either value of the
  flag, from any state), running it again over the same loader with \<open>skip_existing\<close> set
  returns the very same state: the files are identical, the count of extractor calls has
  not moved (no inference call was made), and no random draw was consumed. This holds for
  the extraction for volumes and for the extraction for central slices.
\<close>

theorem rerun_with_skip_existing_changes_nothing:
  "(extract_medicalnet_features_to_dir normal loader dest fe skip w = Inr w' \<longrightarrow>
      extract_medicalnet_features_to_dir normal loader dest fe True w' = Inr w') \<and>
   (extract_imagenet_features_to_dir loader2 dest2 fe2 skip2 v = Inr v' \<longrightarrow>
      extract_imagenet_features_to_dir loader2 dest2 fe2 True v' = Inr v')"
  using medicalnet_rerun imagenet_rerun by blast

theorem rerun_with_skip_existing_witness:
  "extract_medicalnet_features_to_dir real
     [\<lparr>age = 30::nat, sex = True, image_arr = [0, 0]\<rparr>, \<lparr>age = 41, sex = False, image_arr = [0]\<rparr>]
     ''real'' (\<lambda>v. [v]) True
     \<lparr>files = [''real/feat_0.npz'' \<mapsto> \<lparr>age = 30, sex = True, feat = [Fin 0, Fin 1]\<rparr>,
               ''real/feat_1.npz'' \<mapsto> \<lparr>age = 41, sex = False, feat = [Fin 2]\<rparr>],
        rng = 3, inference_calls = 2\<rparr>
   = Inr \<lparr>files = [''real/feat_0.npz'' \<mapsto> \<lparr>age = 30, sex = True, feat = [Fin 0, Fin 1]\<rparr>,
                     ''real/feat_1.npz'' \<mapsto> \<lparr>age = 41, sex = False, feat = [Fin 2]\<rparr>],
          rng = 3, inference_calls = 2\<rparr> \<and>
   extract_imagenet_features_to_dir
     [\<lparr>age = 30::nat, sex = True, image_arr = [[[[[1]], [[2]], [[3]]]]]\<rparr>]
     ''fake/'' (\<lambda>x. x) True
     \<lparr>files = [''fake/feat_0.npz'' \<mapsto>
                 \<lparr>age = 30, sex = True, feat = [[[2 - 406 / 1000]], [[2 - 456 / 1000]], [[2 - 485 / 1000]]]\<rparr>],
        rng = 0, inference_calls = 1\<rparr>
   = Inr \<lparr>files = [''fake/feat_0.npz'' \<mapsto>
                     \<lparr>age = 30, sex = True, feat = [[[2 - 406 / 1000]], [[2 - 456 / 1000]], [[2 - 485 / 1000]]]\<rparr>],
          rng = 0, inference_calls = 1\<rparr>"
proof -
  let ?loader = "[\<lparr>age = 30::nat, sex = True, image_arr = [0, 0::real]\<rparr>,
                  \<lparr>age = 41, sex = False, image_arr = [0]\<rparr>]"
  let ?w = "\<lparr>files = [''real/feat_0.npz'' \<mapsto> \<lparr>age = 30::nat, sex = True, feat = [Fin 0, Fin 1]\<rparr>,
                      ''real/feat_1.npz'' \<mapsto> \<lparr>age = 41, sex = False, feat = [Fin 2]\<rparr>],
            rng = 3, inference_calls = 2\<rparr>"
  have complete: "extract_medicalnet_features_to_dir real ?loader ''real'' (\<lambda>v. [v]) True ?w = Inr ?w"
    by (simp add: extract_medicalnet_features_to_dir_def enumerate_eq_zip upt_rec
        save_path_of_def path_join_def feat_name_def str_of_nat.simps digit_char_def
        path_exists_def)
  note rerun = rerun_with_skip_existing_changes_nothing
          [of real ?loader "''real''" "\<lambda>v. [v]" True ?w ?w _ "''fake/''" "\<lambda>x. x" False]
  from rerun[THEN conjunct1, THEN mp, OF complete]
       rerun[THEN conjunct2, THEN mp, OF imagenet_example_run]
  show ?thesis by (rule conjI)
qed

text \<open>
  Claim C8. The loop for volumes is written to save, for every sample it does not skip,
  the file \<^verbatim>\<open>feat_<i>.npz\<close> with the embedding, the age and the sex (\<^verbatim>\<open>np.savez\<close> ends its body,
  and the loop over central slices, of the same shape, does save it). But the
  normalisation comes first, and it raises a \<open>TypeError\<close> for every volume of two or more
  voxels: on a loader whose first sample has the volume \<open>[0, 0]\<close>, with an empty directory
  and \<open>skip_existing\<close> off, the run ends with that error, the extractor is not called and no
  record file is written.
\<close>

theorem extract_medicalnet_raises_before_writing:
  "extract_medicalnet_features_to_dir real
     [\<lparr>age = 30::nat, sex = True, image_arr = [0, 0]\<rparr>, \<lparr>age = 41, sex = False, image_arr = [0]\<rparr>]
     ''real'' (\<lambda>v. [v]) False \<lparr>files = Map.empty, rng = 0, inference_calls = 0\<rparr>
   = Inl TypeError"
  by (simp add: extract_medicalnet_features_to_dir_def enumerate_eq_zip upt_rec
      save_path_of_def path_exists_def itensity_normalize_raises)

section \<open>Properties of the channel replication\<close>

text \<open>The step triples the size of the channel axis whatever that size is.\<close>

lemma shape1_channel_replication: "shape1 (channel_replication img) = 3 * shape1 img"
  by (cases img) (simp_all add: channel_replication_def shape1_def repeat_channels_def)

text \<open>
  Claim C2. The comment in the source says that an input with just one channel is repeated
  to three channels; the condition the code tests is \<^verbatim>\<open>image.shape[1]\<close>, true for three
  channels as well. An image of shape \<open>(1, 3, 1, 1)\<close> leaves the step with nine channels, not
  with the three it had.
\<close>

theorem channel_replication_three_channels:
  "shape1 [[[[1::real]], [[2]], [[3]]]] = 3 \<and>
   channel_replication [[[[1::real]], [[2]], [[3]]]]
     = [[[[1]], [[2]], [[3]], [[1]], [[2]], [[3]], [[1]], [[2]], [[3]]]] \<and>
   shape1 (channel_replication [[[[1::real]], [[2]], [[3]]]]) = 9"
  by (simp add: channel_replication_def shape1_def repeat_channels_def)

section \<open>Properties of the pairing of the two feature loaders\<close>

lemma collect_feats_eq:
  "collect_feats ps (rs, fs) = (rs @ map (\<lambda>p. feat (fst p)) ps, fs @ map (\<lambda>p. feat (snd p)) ps)"
  by (induction ps arbitrary: rs fs) auto

lemma collect_feats_zip:
  "collect_feats (zip R F) ([], []) =
     (map feat (take (min (length R) (length F)) R), map feat (take (min (length R) (length F)) F))"
proof -
  have "map (\<lambda>p. feat (fst p)) (zip R F) = map feat (map fst (zip R F))"
    and "map (\<lambda>p. feat (snd p)) (zip R F) = map feat (map snd (zip R F))"
    by (simp_all add: comp_def)
  then show ?thesis
    by (simp only: collect_feats_eq append_Nil map_fst_zip_take map_snd_zip_take min.commute)
qed

text \<open>
  Whatever the two loaders yield, the outcome is that of the loaders cut to the length of
  the shorter: the records beyond it play no part.
\<close>

lemma fid_of_feat_loaders_truncated:
  "fid_of_feat_loaders fid_metric R F =
     fid_of_feat_loaders fid_metric (take (min (length R) (length F)) R)
                                    (take (min (length R) (length F)) F)"
  by (simp add: fid_of_feat_loaders_def collect_feats_zip)

text \<open>
  Claim C10 (as amended). When both feature loaders yield at least one record, only the
  first \<open>min count_real count_fake\<close> records of each are collected and stacked, the records
  of the longer loader beyond that number are ignored, and the call returns the value of
  the metric on the two stacked matrices (generated features first): no error is raised
  for the difference in counts.
\<close>

theorem fid_of_feat_loaders_pairs_first_min:
  assumes "real_feat_loader \<noteq> []" and "fake_feat_loader \<noteq> []"
  shows "collect_feats (zip real_feat_loader fake_feat_loader) ([], []) =
           (map feat (take (min (length real_feat_loader) (length fake_feat_loader)) real_feat_loader),
            map feat (take (min (length real_feat_loader) (length fake_feat_loader)) fake_feat_loader)) \<and>
         fid_of_feat_loaders fid_metric real_feat_loader fake_feat_loader =
           Inr (fid_metric
                  (concat (map feat (take (min (length real_feat_loader) (length fake_feat_loader))
                                       fake_feat_loader)))
                  (concat (map feat (take (min (length real_feat_loader) (length fake_feat_loader))
                                       real_feat_loader))))"
proof -
  let ?k = "min (length real_feat_loader) (length fake_feat_loader)"
  from assms have "0 < ?k" by simp
  then have "take ?k real_feat_loader \<noteq> []" and "take ?k fake_feat_loader \<noteq> []"
    using assms by auto
  then show ?thesis
    by (simp add: fid_of_feat_loaders_def collect_feats_zip vstack_def)
qed

theorem fid_of_feat_loaders_pairs_first_min_witness:
  "[\<lparr>age = 30::nat, sex = True, feat = [[1::real]]\<rparr>, \<lparr>age = 31, sex = True, feat = [[2]]\<rparr>,
    \<lparr>age = 32, sex = False, feat = [[3]]\<rparr>] \<noteq> [] \<and>
   [\<lparr>age = 40::nat, sex = False, feat = [[5::real]]\<rparr>] \<noteq> [] \<and>
   fid_of_feat_loaders (\<lambda>y_pred y. real (length y_pred) + 10 * real (length y))
     [\<lparr>age = 30::nat, sex = True, feat = [[1::real]]\<rparr>, \<lparr>age = 31, sex = True, feat = [[2]]\<rparr>,
      \<lparr>age = 32, sex = False, feat = [[3]]\<rparr>]
     [\<lparr>age = 40::nat, sex = False, feat = [[5::real]]\<rparr>] = Inr 11"
  using fid_of_feat_loaders_pairs_first_min
    [of "[\<lparr>age = 30::nat, sex = True, feat = [[1::real]]\<rparr>, \<lparr>age = 31, sex = True, feat = [[2]]\<rparr>,
          \<lparr>age = 32, sex = False, feat = [[3]]\<rparr>]"
        "[\<lparr>age = 40::nat, sex = False, feat = [[5::real]]\<rparr>]"
        "\<lambda>y_pred y. real (length y_pred) + 10 * real (length y)"]
  by simp

text \<open>
  The claim as first stated (no error whenever the counts differ) fails when one loader
  yields nothing: no pair is formed, both lists of features are empty and \<^verbatim>\<open>torch.vstack\<close>
  raises.
\<close>

theorem fid_of_feat_loaders_empty_counterexample:
  "fid_of_feat_loaders (\<lambda>y_pred y. real (length y_pred) + 10 * real (length y))
     [] [\<lparr>age = 40::nat, sex = False, feat = [[5::real]]\<rparr>] = Inl RuntimeError"
  by (simp add: fid_of_feat_loaders_def vstack_def)

section \<open>Properties of the distance estimator\<close>

lemma sum_list_map_mset:
  "mset xs = mset ys \<Longrightarrow> sum_list (map f xs) = sum_list (map (f :: 'a \<Rightarrow> real) ys)"
proof -
  assume "mset xs = mset ys"
  then have "mset (map f xs) = mset (map f ys)" by simp
  then have "sum_mset (mset (map f xs)) = sum_mset (mset (map f ys))" by (simp only:)
  then show ?thesis by (simp only: sum_mset_sum_list)
qed

lemma col_mean_mset: "mset A = mset B \<Longrightarrow> col_mean d A = col_mean d B"
  unfolding col_mean_def
  using sum_list_map_mset[of A B] mset_eq_length[of A B] by simp

lemma covariance_mset:
  assumes "mset A = mset B"
  shows "covariance d A = covariance d B"
  unfolding covariance_def col_mean_mset[OF assms]
  using sum_list_map_mset[OF assms] mset_eq_length[OF assms] by simp

text \<open>
  Claim C7. The distance is invariant under independent permutations of the rows of the
  two matrices: a matrix and a permutation of its rows have the same rows with the same
  multiplicities, hence the same column means and covariance, on which alone the distance
  depends.
\<close>

theorem frechet_distance_row_permutation_invariant:
  assumes "mset A' = mset A" and "mset B' = mset B"
  shows "frechet_distance sqrtm d A' B' = frechet_distance sqrtm d A B"
  unfolding frechet_distance_def
  by (simp only: col_mean_mset[OF assms(1)] col_mean_mset[OF assms(2)]
      covariance_mset[OF assms(1)] covariance_mset[OF assms(2)])

theorem frechet_distance_row_permutation_witness:
  "mset [[3, 4], [1, 2], [5, 9 :: real]] = mset [[1, 2], [3, 4], [5, 9]] \<and>
   mset [[0, 1], [2, 2 :: real]] = mset [[2, 2], [0, 1]] \<and>
   frechet_distance (\<lambda>M. M) 2 [[3, 4], [1, 2], [5, 9]] [[0, 1], [2, 2]]
     = frechet_distance (\<lambda>M. M) 2 [[1, 2], [3, 4], [5, 9]] [[2, 2], [0, 1]]"
proof -
  have a: "mset [[3, 4], [1, 2], [5, 9 :: real]] = mset [[1, 2], [3, 4], [5, 9]]" by simp
  have b: "mset [[0, 1], [2, 2 :: real]] = mset [[2, 2], [0, 1]]" by simp
  from frechet_distance_row_permutation_invariant [OF a b, of "\<lambda>M. M" 2] a b
  show ?thesis by blast
qed

section \<open>Properties of the feature collection loader\<close>

text \<open>
  Claim C9. Loading a cache directory of \<open>count\<close> records fails with \<open>MissingRecord\<close> when an
  index below \<open>count\<close> has no record: the gap is not skipped and no matrix is returned.
\<close>

theorem load_cache_missing_record:
  assumes "i < length cache_dir" and "i \<notin> source_index ` set cache_dir"
  shows "load_cache cache_dir = Inl MissingRecord"
proof -
  have "set (map source_index (sort_key source_index cache_dir)) = source_index ` set cache_dir"
    by simp
  with assms have "\<not> list_all (\<lambda>i. i \<in> set (map source_index (sort_key source_index cache_dir)))
                      [0..<length (sort_key source_index cache_dir)]"
    by (auto simp: list_all_iff)
  then show ?thesis
    by (simp add: load_cache_def Let_def)
qed

theorem load_cache_missing_record_witness:
  "(1::nat) < length [\<lparr>age = 30::nat, sex = True, feature = [1::real], source_index = 2\<rparr>,
                     \<lparr>age = 41, sex = False, feature = [2], source_index = 0\<rparr>] \<and>
   1 \<notin> source_index ` set [\<lparr>age = 30::nat, sex = True, feature = [1::real], source_index = 2\<rparr>,
                             \<lparr>age = 41, sex = False, feature = [2], source_index = 0\<rparr>] \<and>
   load_cache [\<lparr>age = 30::nat, sex = True, feature = [1::real], source_index = 2\<rparr>,
               \<lparr>age = 41, sex = False, feature = [2], source_index = 0\<rparr>] = Inl MissingRecord"
  using load_cache_missing_record
    [of 1 "[\<lparr>age = 30::nat, sex = True, feature = [1::real], source_index = 2\<rparr>,
            \<lparr>age = 41, sex = False, feature = [2], source_index = 0\<rparr>]"]
  by simp

end
